theory Spec2Isabelle
  imports Main "HOL-Library.AList"
begin

section \<open>Outcomes of a call\<close>

text \<open>
  A Go call either returns, parks its goroutine (a blocking channel operation that
  cannot proceed yet), or panics. Every function of the model returns one of these
  three outcomes together with the state it leaves behind.
\<close>

datatype panic =
  SendOnClosedChannel
  | CloseOfClosedChannel
  | NilDereference
  | AssignToNilMap
  | BindAfterStart string

datatype 'r outcome = Return 'r | Parked | Panic panic

section \<open>The built-in channel\<close>

text \<open>
  \<^verbatim>\<open>make(chan T, buffer)\<close>: a queue of capacity \<open>cap\<close> with the goroutines parked on
  it. \<open>sendq\<close> holds the values of the senders parked in \<^verbatim>\<open>ch <- v\<close>, \<open>recvq\<close> counts
  the receivers parked in \<^verbatim>\<open><-ch\<close>, and \<open>crashed\<close> logs the values of parked senders
  that \<^verbatim>\<open>close(ch)\<close> woke up with the panic "send on closed channel".
\<close>

record 'a chan =
  cap :: nat
  buf :: "'a list"
  sendq :: "'a list"
  recvq :: nat
  chclosed :: bool
  crashed :: "'a list"

definition make_chan :: "nat \<Rightarrow> 'a chan" where
  "make_chan n = \<lparr>cap = n, buf = [], sendq = [], recvq = 0, chclosed = False, crashed = []\<rparr>"

text \<open>\<^verbatim>\<open>ch <- v\<close>: panics on a closed channel, hands the value to a parked receiver,
  else stores it when there is room, else parks the sender.\<close>

definition chan_send :: "'a chan \<Rightarrow> 'a \<Rightarrow> unit outcome \<times> 'a chan" where
  "chan_send q v =
     (if chclosed q then (Panic SendOnClosedChannel, q)
      else if 0 < recvq q then (Return (), q\<lparr>recvq := recvq q - 1\<rparr>)
      else if length (buf q) < cap q then (Return (), q\<lparr>buf := buf q @ [v]\<rparr>)
      else (Parked, q\<lparr>sendq := sendq q @ [v]\<rparr>))"

text \<open>\<^verbatim>\<open>select { case ch <- v: ...; default: ... }\<close>: the result says whether the send
  case was taken.\<close>

definition chan_send_default :: "'a chan \<Rightarrow> 'a \<Rightarrow> bool outcome \<times> 'a chan" where
  "chan_send_default q v =
     (if chclosed q then (Panic SendOnClosedChannel, q)
      else if 0 < recvq q then (Return True, q\<lparr>recvq := recvq q - 1\<rparr>)
      else if length (buf q) < cap q then (Return True, q\<lparr>buf := buf q @ [v]\<rparr>)
      else (Return False, q))"

text \<open>\<^verbatim>\<open>v, ok := <-ch\<close>: the oldest buffered value (a parked sender then moves into the
  freed slot), else the value of a parked sender, else \<open>(zero, false)\<close> on a closed
  channel, else the receiver parks. \<open>z\<close> is the zero value of the element type.\<close>

definition chan_recv :: "'a \<Rightarrow> 'a chan \<Rightarrow> ('a \<times> bool) outcome \<times> 'a chan" where
  "chan_recv z q =
     (case buf q of
        x # xs \<Rightarrow> (Return (x, True), q\<lparr>buf := xs @ take 1 (sendq q), sendq := drop 1 (sendq q)\<rparr>)
      | [] \<Rightarrow>
          (case sendq q of
             s # ss \<Rightarrow> (Return (s, True), q\<lparr>sendq := ss\<rparr>)
           | [] \<Rightarrow>
               if chclosed q then (Return (z, False), q)
               else (Parked, q\<lparr>recvq := recvq q + 1\<rparr>)))"

text \<open>\<^verbatim>\<open>select { case rVal := <-ch: ...; default: }\<close>: \<open>Some rVal\<close> when the receive case
  was taken (on a closed, drained channel it is taken with the zero value).\<close>

definition chan_recv_default :: "'a \<Rightarrow> 'a chan \<Rightarrow> 'a option \<times> 'a chan" where
  "chan_recv_default z q =
     (case buf q of
        x # xs \<Rightarrow> (Some x, q\<lparr>buf := xs @ take 1 (sendq q), sendq := drop 1 (sendq q)\<rparr>)
      | [] \<Rightarrow>
          (case sendq q of
             s # ss \<Rightarrow> (Some s, q\<lparr>sendq := ss\<rparr>)
           | [] \<Rightarrow> if chclosed q then (Some z, q) else (None, q)))"

text \<open>\<^verbatim>\<open>close(ch)\<close>: panics on a closed channel; otherwise every parked receiver
  returns \<open>(zero, false)\<close> and every parked sender panics.\<close>

definition chan_close :: "'a chan \<Rightarrow> unit outcome \<times> 'a chan" where
  "chan_close q =
     (if chclosed q then (Panic CloseOfClosedChannel, q)
      else (Return (), q\<lparr>chclosed := True, recvq := 0, sendq := [],
                          crashed := crashed q @ sendq q\<rparr>))"

section \<open>helper.go: Atomic and Channel\<close>

text \<open>\<^verbatim>\<open>Atomic[T]\<close>: a value behind a mutex. \<open>Load\<close> and \<open>Store\<close> hold the lock for
  the length of the call only, so between two calls the lock is free and is not part
  of the state.\<close>

record 'a Atomic =
  val :: 'a

definition Load :: "'a Atomic \<Rightarrow> 'a" where
  "Load a = val a"

definition Store :: "'a Atomic \<Rightarrow> 'a \<Rightarrow> 'a Atomic" where
  "Store a x = a\<lparr>val := x\<rparr>"

record 'a Channel =
  closed :: "bool Atomic"
  ch :: "'a chan"

text \<open>\<^verbatim>\<open>MakeChannel[T](buffer)\<close>. The size is a \<open>nat\<close>: the only caller passes 0.\<close>

definition MakeChannel :: "nat \<Rightarrow> 'a Channel" where
  "MakeChannel buffer = \<lparr>closed = \<lparr>val = False\<rparr>, ch = make_chan buffer\<rparr>"

definition TrySend :: "'a Channel \<Rightarrow> 'a \<Rightarrow> bool outcome \<times> 'a Channel" where
  "TrySend c v =
     (if Load (closed c) then (Return False, c)
      else (case chan_send_default (ch c) v of (r, q) \<Rightarrow> (r, c\<lparr>ch := q\<rparr>)))"

text \<open>\<open>Send\<close> has no result in the source: it returns \<open>()\<close> on both of its paths.\<close>

definition Send :: "'a Channel \<Rightarrow> 'a \<Rightarrow> unit outcome \<times> 'a Channel" where
  "Send c v =
     (if Load (closed c) then (Return (), c)
      else (case chan_send (ch c) v of (r, q) \<Rightarrow> (r, c\<lparr>ch := q\<rparr>)))"

definition TryRecv :: "'a \<Rightarrow> 'a Channel \<Rightarrow> ('a \<times> bool) outcome \<times> 'a Channel" where
  "TryRecv z c =
     (if Load (closed c) then (Return (z, False), c)
      else (case chan_recv_default z (ch c) of
              (Some rVal, q) \<Rightarrow> (Return (rVal, True), c\<lparr>ch := q\<rparr>)
            | (None, q) \<Rightarrow> (Return (z, False), c\<lparr>ch := q\<rparr>)))"

definition Recv :: "'a \<Rightarrow> 'a Channel \<Rightarrow> ('a \<times> bool) outcome \<times> 'a Channel" where
  "Recv z c =
     (if Load (closed c) then (Return (z, False), c)
      else (case chan_recv z (ch c) of
              (Return (rVal, ok), q) \<Rightarrow>
                (if \<not> ok then (Return (z, False), c\<lparr>ch := q\<rparr>)
                 else (Return (rVal, True), c\<lparr>ch := q\<rparr>))
            | (Parked, q) \<Rightarrow> (Parked, c\<lparr>ch := q\<rparr>)
            | (Panic e, q) \<Rightarrow> (Panic e, c\<lparr>ch := q\<rparr>)))"

definition Closed :: "'a Channel \<Rightarrow> bool" where
  "Closed c = Load (closed c)"

definition Close :: "'a Channel \<Rightarrow> unit outcome \<times> 'a Channel" where
  "Close c =
     (if Load (closed c) then (Return (), c)
      else (case chan_close (ch c) of
              (Return u, q) \<Rightarrow> (Return (), c\<lparr>ch := q, closed := Store (closed c) True\<rparr>)
            | (r, q) \<Rightarrow> (r, c\<lparr>ch := q\<rparr>)))"

text \<open>\<open>Close()\<close> called \<open>n\<close> times in sequence; a call that does not return ends the
  sequence.\<close>

fun Close_times :: "nat \<Rightarrow> 'a Channel \<Rightarrow> unit outcome \<times> 'a Channel" where
  "Close_times 0 c = (Return (), c)"
| "Close_times (Suc n) c =
     (case Close c of
        (Return u, c') \<Rightarrow> Close_times n c'
      | (r, c') \<Rightarrow> (r, c'))"

text \<open>The closed flag and the queue's own closed state agree whenever no \<open>Close()\<close> is
  in progress: \<open>Close\<close> is the only function that writes either.\<close>

definition flag_agrees :: "'a Channel \<Rightarrow> bool" where
  "flag_agrees c = (chclosed (ch c) = Load (closed c))"

section \<open>Errors and contexts\<close>

text \<open>Go's \<^verbatim>\<open>error\<close> values; \<^verbatim>\<open>nil\<close> is \<open>None\<close> of \<open>error option\<close>. \<open>Wrapped name e\<close> is
  \<^verbatim>\<open>fmt.Errorf("%s: %w", name, e)\<close> and \<open>Joined es\<close> is what \<^verbatim>\<open>errors.Join\<close> builds.\<close>

datatype error =
  Canceled
  | DeadlineExceeded
  | ErrTooLong
  | OSError string
  | Wrapped string error
  | Joined "error list"

text \<open>\<^verbatim>\<open>errors.Join(errs...)\<close>: nil when every argument is nil, else an error that
  holds the non-nil arguments in order.\<close>

definition Join :: "error option list \<Rightarrow> error option" where
  "Join errs =
     (case List.map_filter (\<lambda>e. e) errs of
        [] \<Rightarrow> None
      | es \<Rightarrow> Some (Joined es))"

text \<open>\<^verbatim>\<open>errors.Is(err, target)\<close>: follows \<^verbatim>\<open>Unwrap\<close> through wrapped and joined errors.\<close>

fun errors_Is :: "error \<Rightarrow> error \<Rightarrow> bool" where
  "errors_Is (Wrapped n e) t = (Wrapped n e = t \<or> errors_Is e t)"
| "errors_Is (Joined es) t = (Joined es = t \<or> list_ex (\<lambda>e. errors_Is e t) es)"
| "errors_Is e t = (e = t)"

text \<open>A \<^verbatim>\<open>context.Context\<close> as the code reads it: not done, or done with
  \<^verbatim>\<open>ctx.Err()\<close>.\<close>

datatype ctx_state = Active | Done error

definition isCtxDone :: "ctx_state \<Rightarrow> bool \<times> error option" where
  "isCtxDone c =
     (case c of
        Done e \<Rightarrow> (if errors_Is e Canceled then (True, None) else (True, Some e))
      | Active \<Rightarrow> (False, None))"

text \<open>The \<^verbatim>\<open>context.CancelFunc\<close> of \<^verbatim>\<open>context.WithCancel\<close>: the first call cancels.\<close>

definition cancel :: "ctx_state \<Rightarrow> ctx_state" where
  "cancel c = (case c of Active \<Rightarrow> Done Canceled | Done e \<Rightarrow> Done e)"

section \<open>options.go\<close>

record Options =
  Name :: string
  Args :: "string list"
  WorkDir :: string
  Env :: "string list"
  Stdin :: bool
  Stdout :: bool
  Stderr :: bool
  MaxWaitTime :: int

text \<open>\<^verbatim>\<open>var opts Options\<close>: the zero value.\<close>

definition zero_Options :: Options where
  "zero_Options =
     \<lparr>Name = [], Args = [], WorkDir = [], Env = [],
      Stdin = False, Stdout = False, Stderr = False, MaxWaitTime = 0\<rparr>"

type_synonym ProcOption = "Options \<Rightarrow> Options"

definition WithCommand :: "string \<Rightarrow> string list \<Rightarrow> ProcOption" where
  "WithCommand name args = (\<lambda>opt. opt\<lparr>Name := name, Args := args\<rparr>)"

definition WithWorkDir :: "string \<Rightarrow> ProcOption" where
  "WithWorkDir dir = (\<lambda>opt. opt\<lparr>WorkDir := dir\<rparr>)"

definition WithEnv :: "(string \<times> string) list \<Rightarrow> ProcOption" where
  "WithEnv env = (\<lambda>opts. opts\<lparr>Env := map (\<lambda>(k, v). k @ ''='' @ v) env\<rparr>)"

definition WithStdin :: ProcOption where
  "WithStdin = (\<lambda>opt. opt\<lparr>Stdin := True\<rparr>)"

definition WithStdout :: ProcOption where
  "WithStdout = (\<lambda>opt. opt\<lparr>Stdout := True\<rparr>)"

definition WithStderr :: ProcOption where
  "WithStderr = (\<lambda>opt. opt\<lparr>Stderr := True\<rparr>)"

definition WithMaxWaitTime :: "int \<Rightarrow> ProcOption" where
  "WithMaxWaitTime t = (\<lambda>opt. opt\<lparr>MaxWaitTime := t\<rparr>)"

section \<open>proc.go: the Proc and its constructor\<close>

type_synonym bytes = string
type_synonym Stream = "bytes Channel"

text \<open>A \<^verbatim>\<open>*Stream\<close> is an index into the list of all streams allocated so far; a
  registry \<^verbatim>\<open>map[string]*Stream\<close> is an association list, \<open>None\<close> when the map is nil.\<close>

type_synonym registry = "(string \<times> nat) list option"

datatype signal = SIGTERM | SIGINT | SIGKILL

text \<open>The \<^verbatim>\<open>*os.Process\<close>: its id and the signals passed to \<^verbatim>\<open>Signal\<close> so far.\<close>

record os_process =
  Pid :: int
  delivered :: "signal list"

text \<open>A pipe end (\<^verbatim>\<open>io.WriteCloser\<close>, \<^verbatim>\<open>io.ReadCloser\<close>).\<close>

record pipe =
  pipe_closed :: bool

datatype direction = FromStdout | FromStderr

text \<open>The goroutines handed to \<^verbatim>\<open>p.group.Go\<close>: one writer per stdin subscriber, one
  reader per output direction.\<close>

datatype task = StdinTask string nat | OutStreamTask direction

record errgroup =
  tasks :: "task list"

record pool =
  released :: bool

record Proc =
  ctx :: ctx_state
  proc :: "os_process option"
  process :: "int option"
  stdinPipe :: "pipe option"
  stdinChs :: registry
  stdoutPipe :: "pipe option"
  stdoutChs :: registry
  stderrPipe :: "pipe option"
  stderrChs :: registry
  group :: "errgroup option"
  workerPool :: "pool option"
  options :: Options

text \<open>\<^verbatim>\<open>&Proc{cmd: procCmd}\<close>: every field but \<open>cmd\<close> starts at its zero value.\<close>

definition new_Proc :: Proc where
  "new_Proc =
     \<lparr>ctx = Active, proc = None, process = None,
      stdinPipe = None, stdinChs = None,
      stdoutPipe = None, stdoutChs = None,
      stderrPipe = None, stderrChs = None,
      group = None, workerPool = None, options = zero_Options\<rparr>"

text \<open>What the collaborators of \<open>NewProc\<close> answer: the errors of
  \<^verbatim>\<open>procCmd.StdinPipe()\<close>, \<^verbatim>\<open>StdoutPipe()\<close>, \<^verbatim>\<open>StderrPipe()\<close> and \<^verbatim>\<open>ants.NewPool\<close>.\<close>

record new_env =
  stdin_pipe_err :: "error option"
  stdout_pipe_err :: "error option"
  stderr_pipe_err :: "error option"
  pool_err :: "error option"

definition apply_options :: "ProcOption list \<Rightarrow> Options" where
  "apply_options procOptions = foldl (\<lambda>opts opt. opt opts) zero_Options procOptions"

text \<open>\<open>NewProc\<close>. The options are applied to the local \<open>opts\<close>, which decides the pipes,
  registries, group and pool; no statement stores \<open>opts\<close> into the new Proc, whose
  \<open>options\<close> field keeps its zero value.\<close>

definition NewProc :: "new_env \<Rightarrow> ctx_state \<Rightarrow> ProcOption list \<Rightarrow> error + Proc" where
  "NewProc env c procOptions =
     (let opts = apply_options procOptions;
          newProc = new_Proc
      in case (if Stdin opts
               then (case stdin_pipe_err env of
                       Some e \<Rightarrow> Inl e
                     | None \<Rightarrow> Inr (newProc\<lparr>stdinPipe := Some \<lparr>pipe_closed = False\<rparr>,
                                              stdinChs := Some []\<rparr>))
               else Inr newProc) of
           Inl e \<Rightarrow> Inl e
         | Inr p1 \<Rightarrow>
        (case (if Stdout opts
               then (case stdout_pipe_err env of
                       Some e \<Rightarrow> Inl e
                     | None \<Rightarrow> Inr (p1\<lparr>stdoutPipe := Some \<lparr>pipe_closed = False\<rparr>,
                                         stdoutChs := Some []\<rparr>))
               else Inr p1) of
           Inl e \<Rightarrow> Inl e
         | Inr p2 \<Rightarrow>
        (case (if Stderr opts
               then (case stderr_pipe_err env of
                       Some e \<Rightarrow> Inl e
                     | None \<Rightarrow> Inr (p2\<lparr>stderrPipe := Some \<lparr>pipe_closed = False\<rparr>,
                                         stderrChs := Some []\<rparr>))
               else Inr p2) of
           Inl e \<Rightarrow> Inl e
         | Inr p3 \<Rightarrow>
        (case (if Stdin opts \<or> Stdout opts \<or> Stderr opts
               then (case pool_err env of
                       Some e \<Rightarrow> Inl e
                     | None \<Rightarrow> Inr (p3\<lparr>group := Some \<lparr>tasks = []\<rparr>,
                                         workerPool := Some \<lparr>released = False\<rparr>\<rparr>))
               else Inr p3) of
           Inl e \<Rightarrow> Inl e
         | Inr p4 \<Rightarrow> Inr (p4\<lparr>ctx := c\<rparr>)))))"

definition PID :: "Proc \<Rightarrow> int" where
  "PID p = (case proc p of None \<Rightarrow> - 1 | Some pr \<Rightarrow> Pid pr)"

section \<open>Binding a named stream\<close>

text \<open>The three bind functions as they stand beside \<open>Channel\<close> (the variant whose
  guard is \<^verbatim>\<open>p.PID() != -1\<close>). The result is the \<^verbatim>\<open>*Stream\<close>: \<open>None\<close> is nil.\<close>

definition StdinPipe_v ::
  "Stream list \<Rightarrow> Proc \<Rightarrow> string \<Rightarrow> nat option outcome \<times> Stream list \<times> Proc" where
  "StdinPipe_v h p name =
     (if PID p \<noteq> - 1 then (Panic (BindAfterStart name), h, p)
      else if \<not> Stdin (options p) then (Return None, h, p)
      else (case stdinChs p of
              None \<Rightarrow> (Panic AssignToNilMap, h @ [MakeChannel 0], p)
            | Some m \<Rightarrow>
                (Return (Some (length h)), h @ [MakeChannel 0],
                 p\<lparr>stdinChs := Some (AList.update name (length h) m)\<rparr>)))"

definition StdoutPipe_v ::
  "Stream list \<Rightarrow> Proc \<Rightarrow> string \<Rightarrow> nat option outcome \<times> Stream list \<times> Proc" where
  "StdoutPipe_v h p name =
     (if PID p \<noteq> - 1 then (Panic (BindAfterStart name), h, p)
      else if \<not> Stdout (options p) then (Return None, h, p)
      else (case stdoutChs p of
              None \<Rightarrow> (Panic AssignToNilMap, h @ [MakeChannel 0], p)
            | Some m \<Rightarrow>
                (Return (Some (length h)), h @ [MakeChannel 0],
                 p\<lparr>stdoutChs := Some (AList.update name (length h) m)\<rparr>)))"

definition StderrPipe_v ::
  "Stream list \<Rightarrow> Proc \<Rightarrow> string \<Rightarrow> nat option outcome \<times> Stream list \<times> Proc" where
  "StderrPipe_v h p name =
     (if PID p \<noteq> - 1 then (Panic (BindAfterStart name), h, p)
      else if \<not> Stderr (options p) then (Return None, h, p)
      else (case stderrChs p of
              None \<Rightarrow> (Panic AssignToNilMap, h @ [MakeChannel 0], p)
            | Some m \<Rightarrow>
                (Return (Some (length h)), h @ [MakeChannel 0],
                 p\<lparr>stderrChs := Some (AList.update name (length h) m)\<rparr>)))"

text \<open>pipe.go: the same three functions with the guard \<^verbatim>\<open>p.PID() != 0\<close>.\<close>

definition StdinPipe ::
  "Stream list \<Rightarrow> Proc \<Rightarrow> string \<Rightarrow> nat option outcome \<times> Stream list \<times> Proc" where
  "StdinPipe h p name =
     (if PID p \<noteq> 0 then (Panic (BindAfterStart name), h, p)
      else if \<not> Stdin (options p) then (Return None, h, p)
      else (case stdinChs p of
              None \<Rightarrow> (Panic AssignToNilMap, h @ [MakeChannel 0], p)
            | Some m \<Rightarrow>
                (Return (Some (length h)), h @ [MakeChannel 0],
                 p\<lparr>stdinChs := Some (AList.update name (length h) m)\<rparr>)))"

definition StdoutPipe ::
  "Stream list \<Rightarrow> Proc \<Rightarrow> string \<Rightarrow> nat option outcome \<times> Stream list \<times> Proc" where
  "StdoutPipe h p name =
     (if PID p \<noteq> 0 then (Panic (BindAfterStart name), h, p)
      else if \<not> Stdout (options p) then (Return None, h, p)
      else (case stdoutChs p of
              None \<Rightarrow> (Panic AssignToNilMap, h @ [MakeChannel 0], p)
            | Some m \<Rightarrow>
                (Return (Some (length h)), h @ [MakeChannel 0],
                 p\<lparr>stdoutChs := Some (AList.update name (length h) m)\<rparr>)))"

definition StderrPipe ::
  "Stream list \<Rightarrow> Proc \<Rightarrow> string \<Rightarrow> nat option outcome \<times> Stream list \<times> Proc" where
  "StderrPipe h p name =
     (if PID p \<noteq> 0 then (Panic (BindAfterStart name), h, p)
      else if \<not> Stderr (options p) then (Return None, h, p)
      else (case stderrChs p of
              None \<Rightarrow> (Panic AssignToNilMap, h @ [MakeChannel 0], p)
            | Some m \<Rightarrow>
                (Return (Some (length h)), h @ [MakeChannel 0],
                 p\<lparr>stderrChs := Some (AList.update name (length h) m)\<rparr>)))"

section \<open>Starting the process\<close>

text \<open>Ranging over a registry: a nil map has no entries.\<close>

definition entries :: "registry \<Rightarrow> (string \<times> nat) list" where
  "entries r = (case r of None \<Rightarrow> [] | Some m \<Rightarrow> m)"

text \<open>\<^verbatim>\<open>p.group.Go(f)\<close>, once per element of \<open>ts\<close>; a nil group is dereferenced by the
  first call.\<close>

definition group_Go :: "Proc \<Rightarrow> task list \<Rightarrow> unit outcome \<times> Proc" where
  "group_Go p ts =
     (if ts = [] then (Return (), p)
      else (case group p of
              None \<Rightarrow> (Panic NilDereference, p)
            | Some g \<Rightarrow> (Return (), p\<lparr>group := Some (g\<lparr>tasks := tasks g @ ts\<rparr>)\<rparr>)))"

definition listenStdinPipe :: "Proc \<Rightarrow> unit outcome \<times> Proc" where
  "listenStdinPipe p =
     (if \<not> Stdin (options p) then (Return (), p)
      else group_Go p (map (\<lambda>(name, stdinCh). StdinTask name stdinCh) (entries (stdinChs p))))"

definition listenOutStream :: "Proc \<Rightarrow> direction \<Rightarrow> unit outcome \<times> Proc" where
  "listenOutStream p d = group_Go p [OutStreamTask d]"

definition listenStdoutPipe :: "Proc \<Rightarrow> unit outcome \<times> Proc" where
  "listenStdoutPipe p =
     (if \<not> Stdout (options p) then (Return (), p) else listenOutStream p FromStdout)"

definition listenStderrPipe :: "Proc \<Rightarrow> unit outcome \<times> Proc" where
  "listenStderrPipe p =
     (if \<not> Stderr (options p) then (Return (), p) else listenOutStream p FromStderr)"

text \<open>What the collaborators of \<open>Start\<close> answer: \<^verbatim>\<open>p.cmd.Start()\<close> fails or spawns a
  process with an id, and \<^verbatim>\<open>process.NewProcess\<close> may fail.\<close>

record start_env =
  cmd_Start :: "error + int"
  NewProcess_err :: "error option"

definition start :: "start_env \<Rightarrow> Proc \<Rightarrow> error option outcome \<times> Proc" where
  "start env p =
     (let pid = PID p in
      case (if 0 \<le> pid
            then (case NewProcess_err env of
                    Some err \<Rightarrow> Inl err
                  | None \<Rightarrow> Inr (p\<lparr>process := Some pid\<rparr>))
            else Inr p) of
        Inl err \<Rightarrow> (Return (Some err), p)
      | Inr p1 \<Rightarrow>
          (case listenStdinPipe p1 of
             (Return u, p2) \<Rightarrow>
               (case listenStdoutPipe p2 of
                  (Return u, p3) \<Rightarrow>
                    (case listenStderrPipe p3 of
                       (Return u, p4) \<Rightarrow> (Return None, p4)
                     | (Parked, p4) \<Rightarrow> (Parked, p4)
                     | (Panic e, p4) \<Rightarrow> (Panic e, p4))
                | (Parked, p3) \<Rightarrow> (Parked, p3)
                | (Panic e, p3) \<Rightarrow> (Panic e, p3))
           | (Parked, p2) \<Rightarrow> (Parked, p2)
           | (Panic e, p2) \<Rightarrow> (Panic e, p2)))"

definition Start :: "start_env \<Rightarrow> Proc \<Rightarrow> error option outcome \<times> Proc" where
  "Start env p =
     (case cmd_Start env of
        Inl err \<Rightarrow> (Return (Some err), p)
      | Inr pid \<Rightarrow> start env (p\<lparr>proc := Some \<lparr>Pid = pid, delivered = []\<rparr>\<rparr>))"

section \<open>Shutdown\<close>

text \<open>\<^verbatim>\<open>for _, stream := range chs { stream.Close() }\<close> over the streams of a registry.
  An index outside the store stands for a nil \<^verbatim>\<open>*Stream\<close>.\<close>

fun close_streams :: "Stream list \<Rightarrow> (string \<times> nat) list \<Rightarrow> unit outcome \<times> Stream list" where
  "close_streams h [] = (Return (), h)"
| "close_streams h ((name, a) # m) =
     (if a < length h
      then (case Close (h ! a) of
              (Return u, c') \<Rightarrow> close_streams (h[a := c']) m
            | (r, c') \<Rightarrow> (r, h[a := c']))
      else (Panic NilDereference, h))"

text \<open>What the collaborators of the shutdown answer: the result of \<^verbatim>\<open>p.group.Wait()\<close>,
  which case of the final \<^verbatim>\<open>select\<close> comes first (the timer, or the exit of the
  process with the result of \<^verbatim>\<open>p.cmd.Wait()\<close>), and the result of
  \<^verbatim>\<open>p.proc.Signal\<close>.\<close>

datatype wait_race = TimerFirst | ExitFirst "error option"

record shutdown_env =
  group_Wait :: "error option"
  race :: wait_race
  Signal_err :: "error option"

text \<open>The last part of \<open>close\<close>, from \<^verbatim>\<open>defer p.workerPool.Release()\<close> on: the context
  is cancelled, the wait step computes the result, and the deferred release runs on
  the way out (on a nil pool it is the release that faults).\<close>

definition close_wait :: "shutdown_env \<Rightarrow> Proc \<Rightarrow> error option outcome \<times> Proc" where
  "close_wait env p =
     (let p1 = p\<lparr>ctx := cancel (ctx p)\<rparr>;
          r = (if MaxWaitTime (options p1) = 0
               then (case group p1 of
                       None \<Rightarrow> Panic NilDereference
                     | Some g \<Rightarrow> Return (group_Wait env))
               else (case race env of
                       TimerFirst \<Rightarrow> Return (Some DeadlineExceeded)
                     | ExitFirst err \<Rightarrow> Return err))
      in case workerPool p1 of
           None \<Rightarrow> (Panic NilDereference, p1)
         | Some wp \<Rightarrow> (r, p1\<lparr>workerPool := Some (wp\<lparr>released := True\<rparr>)\<rparr>))"

definition close ::
  "shutdown_env \<Rightarrow> Stream list \<Rightarrow> Proc \<Rightarrow> error option outcome \<times> Stream list \<times> Proc" where
  "close env h p =
     (case close_streams h (entries (stdinChs p)) of
        (Parked, h1) \<Rightarrow> (Parked, h1, p)
      | (Panic e, h1) \<Rightarrow> (Panic e, h1, p)
      | (Return u, h1) \<Rightarrow>
     (case stdinPipe p of
        None \<Rightarrow> (Panic NilDereference, h1, p)
      | Some inp \<Rightarrow>
     (let p1 = p\<lparr>stdinPipe := Some (inp\<lparr>pipe_closed := True\<rparr>)\<rparr> in
      case close_streams h1 (entries (stdoutChs p1)) of
        (Parked, h2) \<Rightarrow> (Parked, h2, p1)
      | (Panic e, h2) \<Rightarrow> (Panic e, h2, p1)
      | (Return u, h2) \<Rightarrow>
     (case stdoutPipe p1 of
        None \<Rightarrow> (Panic NilDereference, h2, p1)
      | Some outp \<Rightarrow>
     (let p2 = p1\<lparr>stdoutPipe := Some (outp\<lparr>pipe_closed := True\<rparr>)\<rparr> in
      case close_streams h2 (entries (stderrChs p2)) of
        (Parked, h3) \<Rightarrow> (Parked, h3, p2)
      | (Panic e, h3) \<Rightarrow> (Panic e, h3, p2)
      | (Return u, h3) \<Rightarrow>
     (case stderrPipe p2 of
        None \<Rightarrow> (Panic NilDereference, h3, p2)
      | Some errp \<Rightarrow>
     (let p3 = p2\<lparr>stderrPipe := Some (errp\<lparr>pipe_closed := True\<rparr>)\<rparr> in
      case close_wait env p3 of (r, p4) \<Rightarrow> (r, h3, p4))))))))"

definition Signal :: "shutdown_env \<Rightarrow> Proc \<Rightarrow> signal \<Rightarrow> error option \<times> Proc" where
  "Signal env p sig =
     (case proc p of
        None \<Rightarrow> (None, p)
      | Some pr \<Rightarrow> (Signal_err env, p\<lparr>proc := Some (pr\<lparr>delivered := delivered pr @ [sig]\<rparr>)\<rparr>))"

text \<open>The common body of \<open>Terminate\<close>, \<open>Interrupt\<close> and \<open>Kill\<close>, which differ in the
  signal only.\<close>

definition close_then_signal ::
  "signal \<Rightarrow> shutdown_env \<Rightarrow> Stream list \<Rightarrow> Proc \<Rightarrow> error option outcome \<times> Stream list \<times> Proc" where
  "close_then_signal sig env h p =
     (if proc p = None then (Return None, h, p)
      else (case close env h p of
              (Return closeErr, h1, p1) \<Rightarrow>
                (case Signal env p1 sig of
                   (signalErr, p2) \<Rightarrow> (Return (Join [closeErr, signalErr]), h1, p2))
            | (Parked, h1, p1) \<Rightarrow> (Parked, h1, p1)
            | (Panic e, h1, p1) \<Rightarrow> (Panic e, h1, p1)))"

definition Terminate ::
  "shutdown_env \<Rightarrow> Stream list \<Rightarrow> Proc \<Rightarrow> error option outcome \<times> Stream list \<times> Proc" where
  "Terminate = close_then_signal SIGTERM"

definition Interrupt ::
  "shutdown_env \<Rightarrow> Stream list \<Rightarrow> Proc \<Rightarrow> error option outcome \<times> Stream list \<times> Proc" where
  "Interrupt = close_then_signal SIGINT"

definition Kill ::
  "shutdown_env \<Rightarrow> Stream list \<Rightarrow> Proc \<Rightarrow> error option outcome \<times> Stream list \<times> Proc" where
  "Kill = close_then_signal SIGKILL"

section \<open>The reader task of an output direction\<close>

text \<open>One turn of \<^verbatim>\<open>for scanner.Scan()\<close>: the line scanned, the state of the context
  when \<open>isCtxDone\<close> looks at it, and what \<^verbatim>\<open>p.workerPool.Submit\<close> answers for the task
  of each subscriber.\<close>

record turn =
  line :: bytes
  ctx_at :: ctx_state
  Submit_err :: "string \<Rightarrow> error option"

text \<open>\<^verbatim>\<open>for name, readCh := range readChs\<close>: the first refused submission ends the task
  with the error tagged by the subscriber's name.\<close>

fun submit_all :: "(string \<Rightarrow> error option) \<Rightarrow> (string \<times> nat) list \<Rightarrow> error option" where
  "submit_all sub [] = None"
| "submit_all sub ((name, readCh) # m) =
     (case sub name of
        Some err \<Rightarrow> Some (Wrapped name err)
      | None \<Rightarrow> submit_all sub m)"

text \<open>The function given to \<^verbatim>\<open>p.group.Go\<close> by \<open>listenOutStream\<close> in the variant beside
  \<open>Channel\<close>. The lines the scanner delivers are \<open>ts\<close>; \<open>scan_err\<close> is \<^verbatim>\<open>scanner.Err()\<close>
  once \<^verbatim>\<open>Scan()\<close> has returned false: nil at end of file, else the read error
  (\<open>ErrTooLong\<close> for a line over the buffer's maximum).\<close>

fun out_reader_v :: "turn list \<Rightarrow> error option \<Rightarrow> (string \<times> nat) list \<Rightarrow> error option" where
  "out_reader_v [] scan_err readChs = scan_err"
| "out_reader_v (t # ts) scan_err readChs =
     (case isCtxDone (ctx_at t) of
        (True, err) \<Rightarrow> err
      | (False, err) \<Rightarrow>
          (case submit_all (Submit_err t) readChs of
             Some e \<Rightarrow> Some e
           | None \<Rightarrow> out_reader_v ts scan_err readChs))"

text \<open>The same task in pipe.go, which ends with \<^verbatim>\<open>return nil\<close>.\<close>

fun out_reader :: "turn list \<Rightarrow> error option \<Rightarrow> (string \<times> nat) list \<Rightarrow> error option" where
  "out_reader [] scan_err readChs = None"
| "out_reader (t # ts) scan_err readChs =
     (case isCtxDone (ctx_at t) of
        (True, err) \<Rightarrow> err
      | (False, err) \<Rightarrow>
          (case submit_all (Submit_err t) readChs of
             Some e \<Rightarrow> Some e
           | None \<Rightarrow> out_reader ts scan_err readChs))"

section \<open>The dispatch task of one subscriber\<close>

text \<open>The \<^verbatim>\<open>select\<close> of the function that \<open>listenOutStream\<close> submits to the pool for each
  subscriber has three cases: \<^verbatim>\<open><-ctx.Done()\<close>, \<^verbatim>\<open><-time.After(time.Second * 20)\<close> and the
  send \<^verbatim>\<open>readCh.ch <- buffer.Bytes()\<close>.\<close>

datatype select_case = CtxDone | TimerFired | SendTaken

text \<open>What the rest of the program does while the \<^verbatim>\<open>select\<close> waits, in nanoseconds from
  its start: when the context becomes done and when a receiver arrives at the stream
  (\<open>None\<close>: never), and the order in which the runtime picks among cases that can
  proceed at the same instant.\<close>

record select_env =
  ctx_done_at :: "nat option"
  receiver_at :: "nat option"
  pick_order :: "select_case list"

text \<open>\<^verbatim>\<open>time.Second * 20\<close>, a \<^verbatim>\<open>time.Duration\<close> in nanoseconds.\<close>

definition twenty_seconds :: int where
  "twenty_seconds = 1000000000 * 20"

text \<open>A send on the queue can proceed at once when the queue is closed (it panics),
  a receiver is parked on it, or the buffer has room.\<close>

definition send_ready :: "'a chan \<Rightarrow> bool" where
  "send_ready q = (chclosed q \<or> 0 < recvq q \<or> length (buf q) < cap q)"

text \<open>The instant from which a case can proceed; the timer of \<^verbatim>\<open>time.After(d)\<close> fires
  after \<open>d\<close>, at once for \<open>d \<le> 0\<close>.\<close>

definition ready_at :: "int \<Rightarrow> select_env \<Rightarrow> 'a chan \<Rightarrow> select_case \<Rightarrow> nat option" where
  "ready_at d env q c =
     (case c of
        CtxDone \<Rightarrow> ctx_done_at env
      | TimerFired \<Rightarrow> Some (nat d)
      | SendTaken \<Rightarrow> (if send_ready q then Some 0 else receiver_at env))"

text \<open>The \<^verbatim>\<open>select\<close> blocks until the first instant at which a case can proceed, and
  runs one of the cases that can proceed then.\<close>

definition select_at :: "int \<Rightarrow> select_env \<Rightarrow> 'a chan \<Rightarrow> nat" where
  "select_at d env q =
     foldr min (List.map_filter (ready_at d env q) [CtxDone, SendTaken]) (nat d)"

definition select_pick :: "int \<Rightarrow> select_env \<Rightarrow> 'a chan \<Rightarrow> select_case" where
  "select_pick d env q =
     (case filter (\<lambda>c. ready_at d env q c = Some (select_at d env q))
             (pick_order env @ [CtxDone, TimerFired, SendTaken]) of
        c # cs \<Rightarrow> c
      | [] \<Rightarrow> TimerFired)"

text \<open>The send case when it runs: on a queue that is ready it is \<^verbatim>\<open>ch <- v\<close>; otherwise a
  receiver has arrived, which takes the oldest buffered value and leaves its slot to
  \<open>v\<close>, or takes \<open>v\<close> itself from an empty buffer.\<close>

definition send_selected :: "'a chan \<Rightarrow> 'a \<Rightarrow> unit outcome \<times> 'a chan" where
  "send_selected q v =
     (if send_ready q then chan_send q v
      else (case buf q of
              [] \<Rightarrow> (Return (), q)
            | x # xs \<Rightarrow> (Return (), q\<lparr>buf := xs @ [v]\<rparr>)))"

text \<open>The submitted function in the variant beside \<open>Channel\<close>; \<open>bs\<close> is the copy of the
  line that the buffer holds. The first two cases of the \<^verbatim>\<open>select\<close> have empty bodies.\<close>

definition dispatch_task_v :: "select_env \<Rightarrow> Stream \<Rightarrow> bytes \<Rightarrow> unit outcome \<times> Stream" where
  "dispatch_task_v env readCh bs =
     (case select_pick twenty_seconds env (ch readCh) of
        CtxDone \<Rightarrow> (Return (), readCh)
      | TimerFired \<Rightarrow> (Return (), readCh)
      | SendTaken \<Rightarrow>
          (case send_selected (ch readCh) bs of (r, q) \<Rightarrow> (r, readCh\<lparr>ch := q\<rparr>)))"

text \<open>The submitted function in pipe.go: \<^verbatim>\<open>ch.Send(buffer.Bytes())\<close>.\<close>

definition dispatch_task :: "Stream \<Rightarrow> bytes \<Rightarrow> unit outcome \<times> Stream" where
  "dispatch_task readCh bs = Send readCh bs"

text \<open>An event that does not happen up to and including the instant \<open>d\<close>.\<close>

definition not_within :: "nat option \<Rightarrow> nat \<Rightarrow> bool" where
  "not_within t d = (case t of None \<Rightarrow> True | Some x \<Rightarrow> d < x)"

section \<open>Concrete channels and processes\<close>

text \<open>A channel of capacity 2 after \<open>Send(1)\<close> and \<open>Send(2)\<close>.\<close>

definition two_buffered :: "nat Channel" where
  "two_buffered = snd (Send (snd (Send (MakeChannel 2) 1)) 2)"

text \<open>A stream as the bind functions make it (capacity 0) after a \<open>Send\<close> that found
  no receiver.\<close>

definition waiting_send :: Stream where
  "waiting_send = snd (Send (MakeChannel 0) ''exit'')"

text \<open>Collaborators that report no fault; the spawned process has the id 4242.\<close>

definition no_faults :: new_env where
  "no_faults =
     \<lparr>stdin_pipe_err = None, stdout_pipe_err = None, stderr_pipe_err = None, pool_err = None\<rparr>"

definition spawned :: start_env where
  "spawned = \<lparr>cmd_Start = Inr 4242, NewProcess_err = None\<rparr>"

text \<open>The process of \<^verbatim>\<open>TestProc_StdoutPipe\<close>: \<open>echo_proc\<close> is what \<open>NewProc\<close> builds for
  \<open>echo_opts\<close> and \<open>started_echo\<close> what \<open>Start\<close> makes of it. \<open>wired_proc\<close> is \<open>echo_proc\<close>
  with the applied options stored in its \<open>options\<close> field.\<close>

definition echo_opts :: "ProcOption list" where
  "echo_opts = [WithCommand ''echo'' [''hello world''], WithStdout]"

definition echo_proc :: Proc where
  "echo_proc =
     new_Proc\<lparr>stdoutPipe := Some \<lparr>pipe_closed = False\<rparr>, stdoutChs := Some [],
              group := Some \<lparr>tasks = []\<rparr>, workerPool := Some \<lparr>released = False\<rparr>\<rparr>"


definition started_echo :: Proc where
  "started_echo =
     echo_proc\<lparr>proc := Some \<lparr>Pid = 4242, delivered = []\<rparr>, process := Some 4242\<rparr>"

text \<open>The process of \<^verbatim>\<open>TestTerminateProcess\<close> and \<^verbatim>\<open>TestKillProcess\<close>: no direction is
  asked for.\<close>

definition plain_opts :: "ProcOption list" where
  "plain_opts = [WithCommand ''bash'' [''-c'', ''while true; do date; sleep 1; done'']]"

definition plain_proc :: Proc where
  "plain_proc = new_Proc"

definition started_plain :: Proc where
  "started_plain =
     plain_proc\<lparr>proc := Some \<lparr>Pid = 4242, delivered = []\<rparr>, process := Some 4242\<rparr>"

text \<open>A process with every direction asked for and a maximum wait of one second
  (a \<^verbatim>\<open>time.Duration\<close> counts nanoseconds).\<close>

definition piped_opts :: "ProcOption list" where
  "piped_opts =
     [WithCommand ''sleep'' [''60''], WithStdin, WithStdout, WithStderr,
      WithMaxWaitTime 1000000000]"

definition piped_proc :: Proc where
  "piped_proc =
     new_Proc\<lparr>stdinPipe := Some \<lparr>pipe_closed = False\<rparr>, stdinChs := Some [],
              stdoutPipe := Some \<lparr>pipe_closed = False\<rparr>, stdoutChs := Some [],
              stderrPipe := Some \<lparr>pipe_closed = False\<rparr>, stderrChs := Some [],
              group := Some \<lparr>tasks = []\<rparr>, workerPool := Some \<lparr>released = False\<rparr>\<rparr>"

definition started_piped :: Proc where
  "started_piped =
     piped_proc\<lparr>proc := Some \<lparr>Pid = 4242, delivered = []\<rparr>, process := Some 4242\<rparr>"

text \<open>A shutdown in which the tasks end without error, the timer of the final
  \<^verbatim>\<open>select\<close> fires before the process exits, and the signal is delivered.\<close>

definition timer_wins :: shutdown_env where
  "timer_wins = \<lparr>group_Wait = None, race = TimerFirst, Signal_err = None\<rparr>"

text \<open>A turn of the reader's loop that goes through: the context is not done and every
  submission is accepted.\<close>

definition steady :: "(string \<times> nat) list \<Rightarrow> turn \<Rightarrow> bool" where
  "steady readChs t = (ctx_at t = Active \<and> submit_all (Submit_err t) readChs = None)"

definition quiet_turn :: turn where
  "quiet_turn = \<lparr>line = ''hello world'', ctx_at = Active, Submit_err = (\<lambda>name. None)\<rparr>"

definition cancelled_turn :: turn where
  "cancelled_turn =
     \<lparr>line = ''Current Time'', ctx_at = Done Canceled, Submit_err = (\<lambda>name. None)\<rparr>"

definition late_turn :: turn where
  "late_turn =
     \<lparr>line = ''Current Time'', ctx_at = Done DeadlineExceeded, Submit_err = (\<lambda>name. None)\<rparr>"

text \<open>Three runs of the rest of the program during a dispatch: nothing happens; the
  context is cancelled after five seconds; a receiver arrives after one second.\<close>

definition no_reader :: select_env where
  "no_reader = \<lparr>ctx_done_at = None, receiver_at = None, pick_order = []\<rparr>"

definition cancelled_at_5s :: select_env where
  "cancelled_at_5s = \<lparr>ctx_done_at = Some 5000000000, receiver_at = None, pick_order = []\<rparr>"

definition reader_at_1s :: select_env where
  "reader_at_1s = \<lparr>ctx_done_at = None, receiver_at = Some 1000000000, pick_order = []\<rparr>"

section \<open>Properties of Channel\<close>

lemma Close_closed: "Load (closed c) \<Longrightarrow> Close c = (Return (), c)"
  by (simp add: Close_def)

lemma Close_open:
  "\<not> Load (closed c) \<Longrightarrow> \<not> chclosed (ch c) \<Longrightarrow>
   Close c = (Return (), c\<lparr>ch := (ch c)\<lparr>chclosed := True, recvq := 0, sendq := [],
                 crashed := crashed (ch c) @ sendq (ch c)\<rparr>, closed := \<lparr>val = True\<rparr>\<rparr>)"
  by (simp add: Close_def chan_close_def Store_def Load_def)

lemma Close_returns_closed: "Close c = (Return u, c') \<Longrightarrow> Load (closed c')"
  by (auto simp: Close_def chan_close_def Store_def Load_def split: if_splits)

lemma Close_times_closed: "Load (closed c) \<Longrightarrow> Close_times n c = (Return (), c)"
  by (induction n) (simp_all add: Close_closed)

lemma two_buffered_eq:
  "two_buffered =
     \<lparr>closed = \<lparr>val = False\<rparr>,
      ch = \<lparr>cap = 2, buf = [1, 2], sendq = [], recvq = 0, chclosed = False, crashed = []\<rparr>\<rparr>"
  by (simp add: two_buffered_def Send_def MakeChannel_def make_chan_def Load_def chan_send_def)

lemma waiting_send_eq:
  "waiting_send =
     \<lparr>closed = \<lparr>val = False\<rparr>,
      ch = \<lparr>cap = 0, buf = [], sendq = [''exit''], recvq = 0, chclosed = False, crashed = []\<rparr>\<rparr>"
  by (simp add: waiting_send_def Send_def MakeChannel_def make_chan_def Load_def chan_send_def)

text \<open>The flag and the queue agree on every channel that the functions of \<open>Channel\<close>
  produce from one on which they agree, and on a new channel.\<close>

lemma flag_agrees_MakeChannel: "flag_agrees (MakeChannel n)"
  by (simp add: flag_agrees_def MakeChannel_def make_chan_def Load_def)

lemma flag_agrees_Send: "flag_agrees c \<Longrightarrow> flag_agrees (snd (Send c v))"
  by (simp add: flag_agrees_def Send_def chan_send_def Load_def)

lemma flag_agrees_TrySend: "flag_agrees c \<Longrightarrow> flag_agrees (snd (TrySend c v))"
  by (simp add: flag_agrees_def TrySend_def chan_send_default_def Load_def)

lemma flag_agrees_Recv: "flag_agrees c \<Longrightarrow> flag_agrees (snd (Recv z c))"
  by (simp add: flag_agrees_def Recv_def chan_recv_def Load_def split: list.splits)

lemma flag_agrees_TryRecv: "flag_agrees c \<Longrightarrow> flag_agrees (snd (TryRecv z c))"
  by (simp add: flag_agrees_def TryRecv_def chan_recv_default_def Load_def split: list.splits)

lemma flag_agrees_Close: "flag_agrees c \<Longrightarrow> flag_agrees (snd (Close c))"
  by (simp add: flag_agrees_def Close_def chan_close_def Load_def Store_def)

text \<open>
  C8. On a channel whose flag and queue agree, \<open>Close()\<close> called \<open>N > 1\<close> times in
  sequence ends with the same result and in the same channel state as \<open>Close()\<close> called
  once: the first call returns, and \<open>Close()\<close> on the state it leaves returns at once
  and changes nothing. As the states are equal, so are the closed flag, the buffered
  contents and every later \<open>Send\<close> and \<open>Recv\<close>.
\<close>

theorem Close_idempotent:
  assumes "flag_agrees c" and "1 < N"
  shows "Close_times N c = Close c \<and> fst (Close c) = Return () \<and>
         Close (snd (Close c)) = (Return (), snd (Close c))"
proof -
  obtain c' where c': "Close c = (Return (), c')"
    using assms(1) by (cases "Load (closed c)") (auto simp: flag_agrees_def Close_closed Close_open)
  then have cl: "Load (closed c')" by (rule Close_returns_closed)
  obtain n where N: "N = Suc n" using assms(2) by (cases N) auto
  have "Close_times N c = Close_times n c'" by (simp add: N c')
  also have "\<dots> = (Return (), c')" using cl by (rule Close_times_closed)
  finally show ?thesis using c' cl by (simp add: Close_closed)
qed

theorem Close_idempotent_witness:
  "Close_times 3 two_buffered = Close two_buffered \<and>
   fst (Close two_buffered) = Return () \<and>
   Load (closed (snd (Close two_buffered))) \<and>
   buf (ch (snd (Close_times 3 two_buffered))) = [1, 2]"
proof -
  have a: "flag_agrees two_buffered"
    by (simp add: flag_agrees_def two_buffered_eq Load_def)
  have b: "(1::nat) < 3" by simp
  show ?thesis using Close_idempotent [OF a b]
    by (simp add: two_buffered_eq Close_def Load_def Store_def chan_close_def)
qed

text \<open>
  C3, as the code has it. Once \<open>Close()\<close> has returned, \<open>Recv()\<close> and \<open>TryRecv()\<close> report
  closed (zero value, flag false) at once and leave the channel as it is: the items
  that were buffered when \<open>Close()\<close> was called stay in the buffer and are not
  delivered.
\<close>

theorem Recv_after_Close:
  assumes "Close c = (Return (), c')"
  shows "Recv z c' = (Return (z, False), c') \<and> TryRecv z c' = (Return (z, False), c') \<and>
         buf (ch c') = buf (ch c)"
proof -
  have cl: "Load (closed c')" using assms by (rule Close_returns_closed)
  have "buf (ch c') = buf (ch c)"
    using assms by (auto simp: Close_def chan_close_def split: if_splits)
  then show ?thesis using cl by (simp add: Recv_def TryRecv_def)
qed

theorem Recv_after_Close_witness:
  "Close two_buffered = (Return (), snd (Close two_buffered)) \<and>
   Recv 0 (snd (Close two_buffered)) = (Return (0, False), snd (Close two_buffered)) \<and>
   TryRecv 0 (snd (Close two_buffered)) = (Return (0, False), snd (Close two_buffered)) \<and>
   buf (ch (snd (Close two_buffered))) = [1, 2]"
proof -
  have a: "Close two_buffered = (Return (), snd (Close two_buffered))"
    by (simp add: two_buffered_eq Close_def chan_close_def Load_def Store_def)
  show ?thesis using a Recv_after_Close [OF a, of 0]
    by (simp add: two_buffered_eq)
qed

text \<open>C3 as stated fails: with 1 and 2 buffered when \<open>Close()\<close> is called, the next
  \<open>Recv()\<close> and \<open>TryRecv()\<close> return the flag false, not the item 1.\<close>

theorem Recv_after_Close_counterexample:
  "buf (ch (snd (Close two_buffered))) = [1, 2] \<and>
   fst (Recv 0 (snd (Close two_buffered))) = Return (0, False) \<and>
   fst (TryRecv 0 (snd (Close two_buffered))) = Return (0, False)"
  by (simp add: two_buffered_eq Close_def chan_close_def Load_def Store_def Recv_def TryRecv_def)

text \<open>
  C4, as the code has it. On a channel whose closed flag is set, \<open>TrySend(v)\<close> returns
  false and \<open>Send(v)\<close> returns at once, and neither enqueues \<open>v\<close>; \<open>Send\<close> has no result, so
  its return says nothing about failure. On an open channel with no room and no
  receiver waiting, \<open>TrySend(v)\<close> returns false without waiting. A \<open>Close()\<close> that closes
  the queue leaves no \<open>Send\<close> waiting on it.
\<close>

theorem Send_closed_or_full:
  "(Load (closed c) \<longrightarrow> TrySend c v = (Return False, c) \<and> Send c v = (Return (), c)) \<and>
   (\<not> Load (closed c) \<and> \<not> chclosed (ch c) \<and> recvq (ch c) = 0 \<and>
      cap (ch c) \<le> length (buf (ch c)) \<longrightarrow> TrySend c v = (Return False, c)) \<and>
   (\<not> Load (closed c) \<and> Close c = (Return (), c') \<longrightarrow> sendq (ch c') = [])"
  by (auto simp: TrySend_def Send_def chan_send_default_def Close_def chan_close_def
      split: if_splits)

theorem Send_closed_or_full_witness:
  "TrySend (snd (Close two_buffered)) 3 = (Return False, snd (Close two_buffered)) \<and>
   Send (snd (Close two_buffered)) 3 = (Return (), snd (Close two_buffered)) \<and>
   TrySend two_buffered 3 = (Return False, two_buffered) \<and>
   sendq (ch waiting_send) = [''exit''] \<and>
   sendq (ch (snd (Close waiting_send))) = []"
proof -
  have a: "Load (closed (snd (Close two_buffered)))"
    by (simp add: two_buffered_eq Close_def chan_close_def Load_def Store_def)
  have b: "\<not> Load (closed two_buffered) \<and> \<not> chclosed (ch two_buffered) \<and>
           recvq (ch two_buffered) = 0 \<and> cap (ch two_buffered) \<le> length (buf (ch two_buffered))"
    by (simp add: two_buffered_eq Load_def)
  have c: "\<not> Load (closed waiting_send) \<and>
           Close waiting_send = (Return (), snd (Close waiting_send))"
    by (simp add: waiting_send_eq Close_def chan_close_def Load_def Store_def)
  show ?thesis
    using a b c
      Send_closed_or_full [of "snd (Close two_buffered)" 3 "snd (Close two_buffered)"]
      Send_closed_or_full [of two_buffered 3 two_buffered]
      Send_closed_or_full [of waiting_send "''exit''" "snd (Close waiting_send)"]
    by (simp add: waiting_send_eq)
qed

text \<open>C4 as stated fails for \<open>Send\<close>: on a closed channel it returns what it returns
  after a successful enqueue, the unit value, so the caller gets no failure
  indication (only the buffer shows that 7 was not enqueued).\<close>

theorem Send_closed_counterexample:
  "fst (Send (snd (Close (MakeChannel 1))) (7::nat)) = Return () \<and>
   buf (ch (snd (Send (snd (Close (MakeChannel 1))) (7::nat)))) = [] \<and>
   fst (Send (MakeChannel 1) (7::nat)) = Return () \<and>
   buf (ch (snd (Send (MakeChannel 1) (7::nat)))) = [7]"
  by (simp add: Send_def Close_def MakeChannel_def make_chan_def chan_close_def chan_send_def
      Load_def Store_def)

text \<open>
  C9 fails on the code. A \<open>Send\<close> on a stream of capacity 0 with no receiver passes the
  flag test and parks in \<^verbatim>\<open>c.ch <- v\<close>; a \<open>Close()\<close> run meanwhile by another goroutine
  returns normally and closes the queue, which ends the parked send with the panic
  "send on closed channel". The same panic meets a \<open>Send\<close> that has passed the flag test
  and reaches \<^verbatim>\<open>c.ch <- v\<close> after the queue was closed.
\<close>

theorem Close_during_Send:
  "fst (Send (MakeChannel 0) ''exit'') = Parked \<and>
   sendq (ch waiting_send) = [''exit''] \<and>
   fst (Close waiting_send) = Return () \<and>
   sendq (ch (snd (Close waiting_send))) = [] \<and>
   crashed (ch (snd (Close waiting_send))) = [''exit''] \<and>
   fst (chan_send (ch (snd (Close (MakeChannel 0)))) ''exit'') = Panic SendOnClosedChannel"
  by (simp add: waiting_send_eq Send_def Close_def MakeChannel_def make_chan_def chan_close_def
      chan_send_def Load_def Store_def)

section \<open>Properties of the constructor and of Start\<close>

text \<open>What \<open>NewProc\<close> builds depends on the applied options for its handles, registries,
  group and pool only; the \<open>options\<close> field of the result is the zero value.\<close>

lemma NewProc_fields:
  assumes "NewProc env c os = Inr p"
  shows "stdinPipe p = (if Stdin (apply_options os) then Some \<lparr>pipe_closed = False\<rparr> else None)"
    and "stdoutPipe p = (if Stdout (apply_options os) then Some \<lparr>pipe_closed = False\<rparr> else None)"
    and "stderrPipe p = (if Stderr (apply_options os) then Some \<lparr>pipe_closed = False\<rparr> else None)"
    and "stdinChs p = (if Stdin (apply_options os) then Some [] else None)"
    and "stdoutChs p = (if Stdout (apply_options os) then Some [] else None)"
    and "stderrChs p = (if Stderr (apply_options os) then Some [] else None)"
    and "group p =
           (if Stdin (apply_options os) \<or> Stdout (apply_options os) \<or> Stderr (apply_options os)
            then Some \<lparr>tasks = []\<rparr> else None)"
    and "workerPool p =
           (if Stdin (apply_options os) \<or> Stdout (apply_options os) \<or> Stderr (apply_options os)
            then Some \<lparr>released = False\<rparr> else None)"
    and "options p = zero_Options" and "proc p = None" and "ctx p = c"
  using assms
  by (auto simp: NewProc_def Let_def new_Proc_def split: if_splits option.splits sum.splits)

lemma Start_zero_options:
  assumes "options p = zero_Options" and "Start env p = (Return None, p')"
  shows "\<exists>pid. cmd_Start env = Inr pid \<and>
           p' = (if 0 \<le> pid
                 then p\<lparr>proc := Some \<lparr>Pid = pid, delivered = []\<rparr>, process := Some pid\<rparr>
                 else p\<lparr>proc := Some \<lparr>Pid = pid, delivered = []\<rparr>\<rparr>)"
  using assms
  by (auto simp: Start_def start_def Let_def PID_def listenStdinPipe_def listenStdoutPipe_def
      listenStderrPipe_def zero_Options_def split: sum.splits option.splits if_splits)









lemma echo_proc_built: "NewProc no_faults Active echo_opts = Inr echo_proc"
  by (simp add: NewProc_def Let_def apply_options_def echo_opts_def WithCommand_def WithStdout_def
      zero_Options_def no_faults_def echo_proc_def new_Proc_def)

lemma echo_proc_started: "Start spawned echo_proc = (Return None, started_echo)"
  by (simp add: Start_def start_def Let_def PID_def spawned_def echo_proc_def new_Proc_def
      zero_Options_def listenStdinPipe_def listenStdoutPipe_def listenStderrPipe_def
      started_echo_def)

section \<open>Properties of the bind functions\<close>

text \<open>With the guard of pipe.go, \<^verbatim>\<open>p.PID() != 0\<close>, a bind before the process is spawned
  panics, since \<open>PID\<close> is then -1.\<close>

lemma bind_pipe_go_before_Start:
  assumes "proc p = None"
  shows "StdinPipe h p name = (Panic (BindAfterStart name), h, p)"
    and "StdoutPipe h p name = (Panic (BindAfterStart name), h, p)"
    and "StderrPipe h p name = (Panic (BindAfterStart name), h, p)"
  using assms by (simp_all add: StdinPipe_def StdoutPipe_def StderrPipe_def PID_def)

text \<open>On a Proc that \<open>NewProc\<close> built, every bind before \<open>Start\<close> returns nil, whatever
  options were passed: \<open>p.options\<close> is the zero value.\<close>

lemma bind_after_NewProc:
  assumes "NewProc env c os = Inr p"
  shows "StdinPipe_v h p name = (Return None, h, p)"
    and "StdoutPipe_v h p name = (Return None, h, p)"
    and "StderrPipe_v h p name = (Return None, h, p)"
  using NewProc_fields(9,10) [OF assms]
  by (simp_all add: StdinPipe_v_def StdoutPipe_v_def StderrPipe_v_def PID_def zero_Options_def)




section \<open>Properties of the shutdown\<close>

lemmas opt_defs = apply_options_def WithCommand_def WithStdin_def WithStdout_def WithStderr_def
  WithMaxWaitTime_def WithWorkDir_def zero_Options_def

lemmas start_defs = Start_def start_def Let_def PID_def spawned_def new_Proc_def
  zero_Options_def listenStdinPipe_def listenStdoutPipe_def listenStderrPipe_def

lemma plain_proc_built: "NewProc no_faults Active plain_opts = Inr plain_proc"
  by (simp add: NewProc_def Let_def opt_defs plain_opts_def no_faults_def plain_proc_def
      new_Proc_def)

lemma piped_proc_built: "NewProc no_faults Active piped_opts = Inr piped_proc"
  by (simp add: NewProc_def Let_def opt_defs piped_opts_def no_faults_def piped_proc_def
      new_Proc_def)

lemma plain_proc_started: "Start spawned plain_proc = (Return None, started_plain)"
  by (simp add: start_defs plain_proc_def started_plain_def)

lemma piped_proc_started: "Start spawned piped_proc = (Return None, started_piped)"
  by (simp add: start_defs piped_proc_def started_piped_def)

text \<open>The final wait step of \<open>close\<close>, on a Proc that has its group and pool: with
  \<open>MaxWaitTime\<close> zero in \<open>p.options\<close> the result is that of \<^verbatim>\<open>p.group.Wait()\<close>; otherwise it
  is \<open>DeadlineExceeded\<close> when the timer comes first and the result of \<^verbatim>\<open>p.cmd.Wait()\<close>
  when the exit comes first. The step cancels the context and releases the pool; it
  sends no signal.\<close>

lemma close_wait_step:
  assumes "workerPool p = Some wp" and "group p = Some g"
  shows "close_wait env p =
           (if MaxWaitTime (options p) = 0 then Return (group_Wait env)
            else (case race env of
                    TimerFirst \<Rightarrow> Return (Some DeadlineExceeded)
                  | ExitFirst err \<Rightarrow> Return err),
            p\<lparr>ctx := cancel (ctx p), workerPool := Some (wp\<lparr>released := True\<rparr>)\<rparr>)"
  using assms by (simp add: close_wait_def Let_def)

lemma close_wait_proc: "close_wait env p = (r, p') \<Longrightarrow> proc p' = proc p"
  by (auto simp: close_wait_def Let_def split: option.splits)

text \<open>\<^verbatim>\<open>errors.Join\<close> of two errors is nil only when both are, and each non-nil one is
  found in the result by \<^verbatim>\<open>errors.Is\<close>.\<close>

lemma Join_pair_None: "(Join [a, b] = None) = (a = None \<and> b = None)"
  by (cases a; cases b) (simp_all add: Join_def List.map_filter_simps)

lemma Join_pair_Is:
  "a = Some e \<or> b = Some e \<Longrightarrow> \<exists>j. Join [a, b] = Some j \<and> errors_Is j e"
  by (cases a; cases b; cases e) (auto simp: Join_def List.map_filter_simps)

text \<open>When \<open>close\<close> returns, \<open>Terminate\<close>, \<open>Interrupt\<close> and \<open>Kill\<close> pass their signal to the
  process and return the join of the two errors.\<close>

lemma close_then_signal_joined:
  assumes "close env h p = (Return closeErr, h1, p1)" and "proc p \<noteq> None"
    and "proc p1 = Some pr"
  shows "close_then_signal sig env h p =
           (Return (Join [closeErr, Signal_err env]), h1,
            p1\<lparr>proc := Some (pr\<lparr>delivered := delivered pr @ [sig]\<rparr>)\<rparr>)"
  using assms by (auto simp: close_then_signal_def Signal_def)

text \<open>
  C5 fails on the code. \<open>WithMaxWaitTime\<close> sets the duration in the options that
  \<open>NewProc\<close> applies, but \<open>NewProc\<close> does not store them: the Proc it returns has
  \<open>MaxWaitTime\<close> zero. Its shutdown therefore takes the branch of \<^verbatim>\<open>p.group.Wait()\<close>, and
  where the timer would come first it returns the group's result, nil here, not
  \<open>DeadlineExceeded\<close>.
\<close>

theorem MaxWaitTime_not_stored:
  "MaxWaitTime (apply_options piped_opts) = 1000000000 \<and>
   NewProc no_faults Active piped_opts = Inr piped_proc \<and>
   MaxWaitTime (options piped_proc) = 0 \<and>
   Start spawned piped_proc = (Return None, started_piped) \<and>
   fst (close timer_wins [] started_piped) = Return None \<and>
   fst (Terminate timer_wins [] started_piped) = Return None"
  apply (simp add: piped_proc_built piped_proc_started)
  apply (simp add: opt_defs piped_opts_def piped_proc_def started_piped_def new_Proc_def
      Terminate_def close_then_signal_def close_def close_wait_def entries_def Let_def
      timer_wins_def Signal_def Join_def List.map_filter_simps cancel_def)
  done

text \<open>
  C6 fails on the code. On the started process of \<^verbatim>\<open>TestTerminateProcess\<close>, built with
  no direction, \<open>Terminate\<close>, \<open>Interrupt\<close> and \<open>Kill\<close> panic in \<open>close\<close> at
  \<^verbatim>\<open>p.stdinPipe.Close()\<close> on the nil handle: no signal is delivered and no error is
  returned.
\<close>

theorem shutdown_without_pipes:
  "NewProc no_faults Active plain_opts = Inr plain_proc \<and>
   Start spawned plain_proc = (Return None, started_plain) \<and>
   Terminate timer_wins [] started_plain = (Panic NilDereference, [], started_plain) \<and>
   Interrupt timer_wins [] started_plain = (Panic NilDereference, [], started_plain) \<and>
   Kill timer_wins [] started_plain = (Panic NilDereference, [], started_plain) \<and>
   proc started_plain = Some \<lparr>Pid = 4242, delivered = []\<rparr>"
  apply (simp add: plain_proc_built plain_proc_started)
  apply (simp add: plain_proc_def started_plain_def new_Proc_def
      Terminate_def Interrupt_def Kill_def close_then_signal_def close_def entries_def)
  done

text \<open>
  C10. For a Proc that \<open>NewProc\<close> built and \<open>Start\<close> started, \<open>close\<close> faults on a nil handle
  exactly when one of the three directions was not asked for in the options given to
  \<open>NewProc\<close>. With all three asked for it returns, having closed the three pipes,
  cancelled the context and released the pool; otherwise \<open>Terminate\<close>, \<open>Interrupt\<close> and
  \<open>Kill\<close> panic with it instead of returning an error.
\<close>

theorem close_needs_every_direction:
  assumes "NewProc nenv c os = Inr p0" and "Start senv p0 = (Return None, p)"
  shows "(fst (close env h p) = Panic NilDereference) =
           (\<not> (Stdin (apply_options os) \<and> Stdout (apply_options os) \<and>
               Stderr (apply_options os))) \<and>
         (Stdin (apply_options os) \<and> Stdout (apply_options os) \<and> Stderr (apply_options os) \<longrightarrow>
            close env h p =
              (Return (group_Wait env), h,
               p\<lparr>stdinPipe := Some \<lparr>pipe_closed = True\<rparr>,
                 stdoutPipe := Some \<lparr>pipe_closed = True\<rparr>,
                 stderrPipe := Some \<lparr>pipe_closed = True\<rparr>,
                 ctx := cancel c, workerPool := Some \<lparr>released = True\<rparr>\<rparr>)) \<and>
         (\<not> (Stdin (apply_options os) \<and> Stdout (apply_options os) \<and>
             Stderr (apply_options os)) \<longrightarrow>
            fst (Terminate env h p) = Panic NilDereference \<and>
            fst (Interrupt env h p) = Panic NilDereference \<and>
            fst (Kill env h p) = Panic NilDereference)"
proof -
  note f = NewProc_fields [OF assms(1)]
  obtain pid where p:
    "p = (if 0 \<le> pid
          then p0\<lparr>proc := Some \<lparr>Pid = pid, delivered = []\<rparr>, process := Some pid\<rparr>
          else p0\<lparr>proc := Some \<lparr>Pid = pid, delivered = []\<rparr>\<rparr>)"
    using Start_zero_options [OF f(9) assms(2)] by blast
  have g: "stdinPipe p = stdinPipe p0" "stdoutPipe p = stdoutPipe p0"
    "stderrPipe p = stderrPipe p0" "stdinChs p = stdinChs p0" "stdoutChs p = stdoutChs p0"
    "stderrChs p = stderrChs p0" "group p = group p0" "workerPool p = workerPool p0"
    "options p = options p0" "ctx p = ctx p0" "proc p \<noteq> None"
    by (simp_all add: p)
  show ?thesis
    by (cases "Stdin (apply_options os)"; cases "Stdout (apply_options os)";
        cases "Stderr (apply_options os)")
       (simp_all add: close_def close_wait_def entries_def Let_def g f zero_Options_def
          Terminate_def Interrupt_def Kill_def close_then_signal_def)
qed

theorem close_needs_every_direction_witness:
  "fst (close timer_wins [] started_plain) = Panic NilDereference \<and>
   fst (close timer_wins [] started_echo) = Panic NilDereference \<and>
   fst (close timer_wins [] started_piped) = Return None \<and>
   fst (Kill timer_wins [] started_echo) = Panic NilDereference"
  using close_needs_every_direction [OF plain_proc_built plain_proc_started, of timer_wins "[]"]
    close_needs_every_direction [OF echo_proc_built echo_proc_started, of timer_wins "[]"]
    close_needs_every_direction [OF piped_proc_built piped_proc_started, of timer_wins "[]"]
  by (simp add: opt_defs plain_opts_def echo_opts_def piped_opts_def timer_wins_def)

section \<open>Properties of the reader task\<close>

lemma out_reader_v_steady:
  "list_all (steady readChs) ts \<Longrightarrow>
   out_reader_v (ts @ rest) scan_err readChs = out_reader_v rest scan_err readChs"
  by (induction ts) (simp_all add: steady_def isCtxDone_def)

text \<open>The task of pipe.go ends with \<^verbatim>\<open>return nil\<close>: a read error is not returned.\<close>

lemma out_reader_drops_read_error:
  "list_all (steady readChs) ts \<Longrightarrow> out_reader ts scan_err readChs = None"
  by (induction ts) (simp_all add: steady_def isCtxDone_def)

text \<open>
  C7, as the code has it (the task that ends with \<^verbatim>\<open>return scanner.Err()\<close>). When every
  turn goes through, the task returns \<^verbatim>\<open>scanner.Err()\<close>: nil at end of file, the read
  error unchanged otherwise. When, after turns that went through, the context is found
  done, the task returns nil if the context's error is \<open>Canceled\<close> and that error
  otherwise. When a submission is refused instead, the task returns that error tagged
  with the subscriber's name.
\<close>

theorem out_reader_result:
  "(list_all (steady readChs) ts \<longrightarrow> out_reader_v ts scan_err readChs = scan_err) \<and>
   (list_all (steady readChs) ts \<and> ctx_at t = Done e \<longrightarrow>
      out_reader_v (ts @ t # rest) scan_err readChs =
        (if errors_Is e Canceled then None else Some e)) \<and>
   (list_all (steady readChs) ts \<and> ctx_at t = Active \<and>
      submit_all (Submit_err t) readChs = Some e' \<longrightarrow>
      out_reader_v (ts @ t # rest) scan_err readChs = Some e')"
proof -
  have "list_all (steady readChs) ts \<Longrightarrow> out_reader_v ts scan_err readChs = scan_err"
    using out_reader_v_steady [of readChs ts "[]" scan_err] by simp
  then show ?thesis
    by (auto simp: out_reader_v_steady isCtxDone_def)
qed

theorem out_reader_result_witness:
  "out_reader_v [quiet_turn] None [(''echo'', 0)] = None \<and>
   out_reader_v [quiet_turn] (Some ErrTooLong) [(''echo'', 0)] = Some ErrTooLong \<and>
   out_reader_v [quiet_turn, cancelled_turn, quiet_turn] (Some ErrTooLong) [(''echo'', 0)] = None \<and>
   out_reader_v [quiet_turn, late_turn, quiet_turn] None [(''echo'', 0)] = Some DeadlineExceeded"
proof -
  have a: "list_all (steady [(''echo'', 0)]) [quiet_turn]"
    by (simp add: steady_def quiet_turn_def)
  have b: "ctx_at cancelled_turn = Done Canceled" "ctx_at late_turn = Done DeadlineExceeded"
    by (simp_all add: cancelled_turn_def late_turn_def)
  show ?thesis
    using a b
      out_reader_result [of "[(''echo'', 0)]" "[quiet_turn]" None cancelled_turn Canceled
        "[quiet_turn]"]
      out_reader_result [of "[(''echo'', 0)]" "[quiet_turn]" "Some ErrTooLong" cancelled_turn
        Canceled "[quiet_turn]"]
      out_reader_result [of "[(''echo'', 0)]" "[quiet_turn]" None late_turn DeadlineExceeded
        "[quiet_turn]"]
    by simp
qed

text \<open>C7 as stated fails: the context is found done with \<open>Canceled\<close> on the first line, and
  the task returns nil, though the stream is not at end of file (it would end in a read
  error) and the context's error is not nil.\<close>

theorem out_reader_result_counterexample:
  "out_reader_v [cancelled_turn] (Some ErrTooLong) [(''echo'', 0)] = None \<and>
   ctx_at cancelled_turn = Done Canceled"
  by (simp add: cancelled_turn_def isCtxDone_def)

section \<open>Properties of the dispatch task\<close>

lemma send_selected_not_Parked: "fst (send_selected q v) \<noteq> Parked"
  by (simp add: send_selected_def send_ready_def chan_send_def split: list.splits)

lemma dispatch_task_v_not_Parked: "fst (dispatch_task_v env c bs) \<noteq> Parked"
  using send_selected_not_Parked [of "ch c" bs]
  by (cases "send_selected (ch c) bs") (simp add: dispatch_task_v_def split: select_case.splits)

lemma select_at_le: "select_at d env q \<le> nat d"
  by (auto simp: select_at_def List.map_filter_simps split: option.splits)

lemma pick_only:
  assumes "\<And>c. P c = (c = c0)"
  shows "(case filter P (xs @ [CtxDone, TimerFired, SendTaken]) of c # cs \<Rightarrow> c | [] \<Rightarrow> TimerFired) = c0"
proof (induction xs)
  case Nil
  show ?case using assms by (cases c0) simp_all
next
  case (Cons x xs)
  then show ?case using assms by simp
qed

lemma timer_only:
  assumes "\<not> send_ready q" and "not_within (receiver_at env) (nat d)"
    and "not_within (ctx_done_at env) (nat d)"
  shows "select_at d env q = nat d" and "select_pick d env q = TimerFired"
proof -
  show t: "select_at d env q = nat d"
    using assms
    by (auto simp: select_at_def ready_at_def not_within_def List.map_filter_simps split: option.splits)
  have "\<And>c. (ready_at d env q c = Some (nat d)) = (c = TimerFired)"
    using assms by (case_tac c) (auto simp: ready_at_def not_within_def split: option.splits)
  then show "select_pick d env q = TimerFired"
    unfolding select_pick_def t by (rule pick_only)
qed

lemma ctx_only:
  assumes "\<not> send_ready q" and "ctx_done_at env = Some t" and "t < nat d"
    and "not_within (receiver_at env) t"
  shows "select_at d env q = t" and "select_pick d env q = CtxDone"
proof -
  show t: "select_at d env q = t"
    using assms
    by (auto simp: select_at_def ready_at_def not_within_def List.map_filter_simps split: option.splits)
  have "\<And>c. (ready_at d env q c = Some t) = (c = CtxDone)"
    using assms by (case_tac c) (auto simp: ready_at_def not_within_def split: option.splits)
  then show "select_pick d env q = CtxDone"
    unfolding select_pick_def t by (rule pick_only)
qed

lemma send_only:
  assumes "send_ready q" and "0 < d" and "not_within (ctx_done_at env) 0"
  shows "select_at d env q = 0" and "select_pick d env q = SendTaken"
proof -
  show t: "select_at d env q = 0"
    using assms
    by (auto simp: select_at_def ready_at_def not_within_def List.map_filter_simps split: option.splits)
  have "\<And>c. (ready_at d env q c = Some 0) = (c = SendTaken)"
    using assms by (case_tac c) (auto simp: ready_at_def not_within_def split: option.splits)
  then show "select_pick d env q = SendTaken"
    unfolding select_pick_def t by (rule pick_only)
qed

lemma receiver_only:
  assumes "\<not> send_ready q" and "receiver_at env = Some t" and "t < nat d"
    and "not_within (ctx_done_at env) t"
  shows "select_at d env q = t" and "select_pick d env q = SendTaken"
proof -
  show t: "select_at d env q = t"
    using assms
    by (auto simp: select_at_def ready_at_def not_within_def List.map_filter_simps split: option.splits)
  have "\<And>c. (ready_at d env q c = Some t) = (c = SendTaken)"
    using assms by (case_tac c) (auto simp: ready_at_def not_within_def split: option.splits)
  then show "select_pick d env q = SendTaken"
    unfolding select_pick_def t by (rule pick_only)
qed

text \<open>The task of pipe.go has no deadline: on a stream with no receiver it parks in
  \<open>Send\<close>.\<close>

lemma dispatch_task_pipe_go_parks:
  "fst (dispatch_task (MakeChannel 0) bs) = Parked"
  by (simp add: dispatch_task_def Send_def MakeChannel_def make_chan_def chan_send_def Load_def)

text \<open>
  C2. The dispatch task of a subscriber never parks: its \<^verbatim>\<open>select\<close> proceeds at most
  twenty seconds after it starts. When the stream cannot take the chunk and neither a
  receiver arrives nor the context becomes done within the twenty seconds, the timer's
  case runs and the task returns with the stream unchanged: the chunk is dropped for
  that subscriber. When the context becomes done first, the task returns at that
  instant, again with the stream unchanged. When the stream can take the chunk at once
  and the context is not done, the send runs at once; when a receiver arrives first,
  the send runs at that instant and the task returns.
\<close>

theorem dispatch_bounded:
  "fst (dispatch_task_v env c bs) \<noteq> Parked \<and>
   select_at twenty_seconds env (ch c) \<le> 20000000000 \<and>
   (\<not> send_ready (ch c) \<and> not_within (receiver_at env) 20000000000 \<and>
      not_within (ctx_done_at env) 20000000000 \<longrightarrow>
      select_at twenty_seconds env (ch c) = 20000000000 \<and>
      dispatch_task_v env c bs = (Return (), c)) \<and>
   (\<not> send_ready (ch c) \<and> ctx_done_at env = Some t \<and> t < 20000000000 \<and>
      not_within (receiver_at env) t \<longrightarrow>
      select_at twenty_seconds env (ch c) = t \<and>
      dispatch_task_v env c bs = (Return (), c)) \<and>
   (send_ready (ch c) \<and> not_within (ctx_done_at env) 0 \<longrightarrow>
      select_at twenty_seconds env (ch c) = 0 \<and>
      dispatch_task_v env c bs =
        (fst (chan_send (ch c) bs), c\<lparr>ch := snd (chan_send (ch c) bs)\<rparr>)) \<and>
   (\<not> send_ready (ch c) \<and> receiver_at env = Some t \<and> t < 20000000000 \<and>
      not_within (ctx_done_at env) t \<longrightarrow>
      select_at twenty_seconds env (ch c) = t \<and>
      fst (dispatch_task_v env c bs) = Return ())"
proof -
  have d: "nat twenty_seconds = 20000000000" "0 < twenty_seconds"
    by (simp_all add: twenty_seconds_def)
  have a: "select_at twenty_seconds env (ch c) \<le> 20000000000"
    using select_at_le [of twenty_seconds env "ch c"] by (simp add: d)
  have b: "select_at twenty_seconds env (ch c) = 20000000000 \<and>
           dispatch_task_v env c bs = (Return (), c)"
    if "\<not> send_ready (ch c)" "not_within (receiver_at env) 20000000000"
      "not_within (ctx_done_at env) 20000000000"
    using timer_only [of "ch c" env twenty_seconds] that
    by (simp add: d dispatch_task_v_def)
  have c: "select_at twenty_seconds env (ch c) = t \<and>
           dispatch_task_v env c bs = (Return (), c)"
    if "\<not> send_ready (ch c)" "ctx_done_at env = Some t" "t < 20000000000"
      "not_within (receiver_at env) t"
    using ctx_only [of "ch c" env t twenty_seconds] that
    by (simp add: d dispatch_task_v_def)
  have e: "select_at twenty_seconds env (ch c) = 0 \<and>
           dispatch_task_v env c bs =
             (fst (chan_send (ch c) bs), c\<lparr>ch := snd (chan_send (ch c) bs)\<rparr>)"
    if "send_ready (ch c)" "not_within (ctx_done_at env) 0"
    using send_only [of "ch c" twenty_seconds env] that
    by (simp add: d dispatch_task_v_def send_selected_def split: prod.splits)
  have f: "select_at twenty_seconds env (ch c) = t \<and>
           fst (dispatch_task_v env c bs) = Return ()"
    if "\<not> send_ready (ch c)" "receiver_at env = Some t" "t < 20000000000"
      "not_within (ctx_done_at env) t"
    using receiver_only [of "ch c" env t twenty_seconds] that
    by (simp add: d dispatch_task_v_def send_selected_def split: list.splits)
  show ?thesis
    using dispatch_task_v_not_Parked [of env c bs] a b c e f by blast
qed

theorem dispatch_bounded_witness:
  "dispatch_task_v no_reader (MakeChannel 0) ''hello world'' = (Return (), MakeChannel 0) \<and>
   select_at twenty_seconds no_reader (ch (MakeChannel 0 :: Stream)) = 20000000000 \<and>
   dispatch_task_v cancelled_at_5s (MakeChannel 0) ''hello world'' = (Return (), MakeChannel 0) \<and>
   select_at twenty_seconds cancelled_at_5s (ch (MakeChannel 0 :: Stream)) = 5000000000 \<and>
   buf (ch (snd (dispatch_task_v no_reader (MakeChannel 1) ''hello world''))) = [''hello world''] \<and>
   fst (dispatch_task_v reader_at_1s (MakeChannel 0) ''hello world'') = Return () \<and>
   select_at twenty_seconds reader_at_1s (ch (MakeChannel 0 :: Stream)) = 1000000000"
proof -
  have a: "\<not> send_ready (ch (MakeChannel 0 :: Stream)) \<and>
           not_within (receiver_at no_reader) 20000000000 \<and>
           not_within (ctx_done_at no_reader) 20000000000"
    by (simp add: send_ready_def MakeChannel_def make_chan_def not_within_def no_reader_def)
  have b: "\<not> send_ready (ch (MakeChannel 0 :: Stream)) \<and>
           ctx_done_at cancelled_at_5s = Some 5000000000 \<and> (5000000000::nat) < 20000000000 \<and>
           not_within (receiver_at cancelled_at_5s) 5000000000"
    by (simp add: send_ready_def MakeChannel_def make_chan_def not_within_def cancelled_at_5s_def)
  have c: "send_ready (ch (MakeChannel 1 :: Stream)) \<and> not_within (ctx_done_at no_reader) 0"
    by (simp add: send_ready_def MakeChannel_def make_chan_def not_within_def no_reader_def)
  have d: "\<not> send_ready (ch (MakeChannel 0 :: Stream)) \<and>
           receiver_at reader_at_1s = Some 1000000000 \<and> (1000000000::nat) < 20000000000 \<and>
           not_within (ctx_done_at reader_at_1s) 1000000000"
    by (simp add: send_ready_def MakeChannel_def make_chan_def not_within_def reader_at_1s_def)
  show ?thesis
    using a b c d
      dispatch_bounded [of no_reader "MakeChannel 0" "''hello world''" 5000000000]
      dispatch_bounded [of cancelled_at_5s "MakeChannel 0" "''hello world''" 5000000000]
      dispatch_bounded [of no_reader "MakeChannel 1" "''hello world''" 5000000000]
      dispatch_bounded [of reader_at_1s "MakeChannel 0" "''hello world''" 1000000000]
    by (simp add: chan_send_def MakeChannel_def make_chan_def)
qed

end
